theory Spec2Isabelle
  imports Complex_Main
begin

section \<open>Decoded JSON values and the Python operations used on them\<close>

text \<open>
  Both programs work on the values that the JSON decoder hands them: \<open>None\<close>, \<open>bool\<close>,
  \<open>int\<close>, \<open>float\<close>, \<open>str\<close>, \<open>list\<close> and \<open>dict\<close>. A \<open>dict\<close> is an association list
  whose first binding of a key is the one \<open>.get\<close> sees. A \<open>float\<close> is given by its exact
  (finite) value; the non-standard constants \<open>NaN\<close> and \<open>Infinity\<close> are not modelled.
\<close>

datatype json =
    JNull
  | JBool bool
  | JInt int
  | JFloat rat
  | JStr string
  | JArr "json list"
  | JObj "(string \<times> json) list"

text \<open>Python truthiness (\<open>bool(v)\<close>), as used by \<open>not v\<close>, \<open>if v\<close> and \<open>v or w\<close>.\<close>

fun truthy :: "json \<Rightarrow> bool" where
  "truthy JNull = False"
| "truthy (JBool b) = b"
| "truthy (JInt i) = (i \<noteq> 0)"
| "truthy (JFloat r) = (r \<noteq> 0)"
| "truthy (JStr s) = (s \<noteq> [])"
| "truthy (JArr xs) = (xs \<noteq> [])"
| "truthy (JObj kvs) = (kvs \<noteq> [])"

definition py_or :: "json \<Rightarrow> json \<Rightarrow> json" where
  "py_or a b = (if truthy a then a else b)"

fun is_dict :: "json \<Rightarrow> bool" where
  "is_dict (JObj kvs) = True"
| "is_dict v = False"

fun is_list :: "json \<Rightarrow> bool" where
  "is_list (JArr xs) = True"
| "is_list v = False"

text \<open>\<open>isinstance(v, int)\<close>: in Python \<open>bool\<close> is a subclass of \<open>int\<close>.\<close>

fun is_int :: "json \<Rightarrow> bool" where
  "is_int (JInt i) = True"
| "is_int (JBool b) = True"
| "is_int v = False"

text \<open>Every exception either program can meet, as a value.\<close>

datatype exn =
    ConnectionError
  | HTTPError int
  | JSONDecodeError
  | AttributeError
  | TypeError
  | ValueError
  | UnicodeEncodeError
  | BrokenPipeError
  | RuntimeError json
  | SweTrackApiError_http int json
  | SweTrackApiError_api json
  | SweTrackApiError_unexpected json

text \<open>
  \<open>v.get(k)\<close> and \<open>v.get(k, d)\<close> on an arbitrary decoded value: only a \<open>dict\<close> has the
  method, anything else raises \<open>AttributeError\<close>.
\<close>

fun get_default :: "json \<Rightarrow> string \<Rightarrow> json \<Rightarrow> exn + json" where
  "get_default (JObj kvs) k d = Inr (case map_of kvs k of None \<Rightarrow> d | Some v \<Rightarrow> v)"
| "get_default v k d = Inl AttributeError"

definition get :: "json \<Rightarrow> string \<Rightarrow> exn + json" where
  "get v k = get_default v k JNull"

text \<open>The same lookups where the receiver is already known to be a \<open>dict\<close>.\<close>

definition dict_get_default :: "(string \<times> json) list \<Rightarrow> string \<Rightarrow> json \<Rightarrow> json" where
  "dict_get_default kvs k d = (case map_of kvs k of None \<Rightarrow> d | Some v \<Rightarrow> v)"

definition dict_get :: "(string \<times> json) list \<Rightarrow> string \<Rightarrow> json" where
  "dict_get kvs k = dict_get_default kvs k JNull"

section \<open>The HTTP collaborator\<close>

text \<open>
  A request is what the client sends; a response is what comes back: no answer at all
  (the HTTP library raises), or a status with a body that decodes to a JSON value or does
  not. The remote end is a function of the whole request history, the request being
  answered last, so the same request may be answered differently every time.
\<close>

record http_request =
  rq_method :: string
  rq_path :: string
  rq_json :: "json option"

datatype response = NoResponse | Response int "json option"

type_synonym server = "http_request list \<Rightarrow> response"

section \<open>The integration's request layer (api.py)\<close>

text \<open>
  \<open>SweTrackApiClient._request\<close> after the response has arrived: the body is decoded first
  (\<open>resp.json\<close> raises on an undecodable body), then the status is checked, then the
  envelope.
\<close>

fun request_result :: "response \<Rightarrow> exn + json" where
  "request_result NoResponse = Inl ConnectionError"
| "request_result (Response status None) = Inl JSONDecodeError"
| "request_result (Response status (Some data)) =
     (if status \<ge> 400 then Inl (SweTrackApiError_http status data)
      else if (case data of JObj kvs \<Rightarrow> map_of kvs ''success'' = Some (JBool False) | _ \<Rightarrow> False)
        then Inl (SweTrackApiError_api
                   (case data of JObj kvs \<Rightarrow> py_or (dict_get kvs ''error'') data | _ \<Rightarrow> data))
      else if \<not> is_dict data then Inl (SweTrackApiError_unexpected data)
      else Inr data)"

text \<open>The call itself: the request is added to the history and answered.\<close>

definition SweTrackApiClient_request ::
  "server \<Rightarrow> http_request list \<Rightarrow> string \<Rightarrow> string \<Rightarrow> json option
    \<Rightarrow> (exn + json) \<times> http_request list" where
  "SweTrackApiClient_request srv hist method path json_data =
     (let hist' = hist @ [\<lparr>rq_method = method, rq_path = path, rq_json = json_data\<rparr>]
      in (request_result (srv hist'), hist'))"

definition async_get_devices :: "server \<Rightarrow> http_request list \<Rightarrow> (exn + json) \<times> http_request list" where
  "async_get_devices srv hist = SweTrackApiClient_request srv hist ''GET'' ''/devices/info'' None"

definition async_get_extended ::
  "server \<Rightarrow> http_request list \<Rightarrow> json \<Rightarrow> string \<Rightarrow> int \<Rightarrow> int
    \<Rightarrow> (exn + json) \<times> http_request list" where
  "async_get_extended srv hist device_id typ page pagesize =
     SweTrackApiClient_request srv hist ''POST'' ''/device/info/extended''
       (Some (JObj [(''deviceid'', device_id), (''type'', JStr typ),
                    (''page'', JInt page), (''pagesize'', JInt pagesize)]))"

text \<open>
  The error detail as the specification words it: the \<open>error\<close> field when the object has
  one, else the whole object.
\<close>

definition spec_error_detail :: "json \<Rightarrow> json" where
  "spec_error_detail data =
     (case data of
        JObj kvs \<Rightarrow> (case map_of kvs ''error'' of Some e \<Rightarrow> e | None \<Rightarrow> data)
      | _ \<Rightarrow> data)"

definition success_is_false :: "json \<Rightarrow> bool" where
  "success_is_false data =
     (case data of JObj kvs \<Rightarrow> map_of kvs ''success'' = Some (JBool False) | _ \<Rightarrow> False)"

section \<open>The integration's refresh cycle (coordinator.py)\<close>

text \<open>\<open>_extract_extended_rows\<close>: anything that is not a list is dropped.\<close>

definition extract_extended_rows :: "json \<Rightarrow> string \<Rightarrow> exn + json list" where
  "extract_extended_rows payload typ =
     (case get payload ''data'' of
        Inl e \<Rightarrow> Inl e
      | Inr d \<Rightarrow>
          (case py_or d (JObj []) of
             JObj kvs \<Rightarrow>
               (let rows =
                  (if typ = ''position'' then dict_get_default kvs ''positions'' (JArr [])
                   else if typ = ''voltage'' then dict_get_default kvs ''voltage'' (JArr [])
                   else py_or (dict_get kvs typ) (py_or (dict_get kvs (typ @ ''s'')) (JArr [])))
                in Inr (case rows of JArr xs \<Rightarrow> xs | _ \<Rightarrow> []))
           | _ \<Rightarrow> Inr []))"

text \<open>
  \<open>extended_by_device\<close> is a \<open>dict\<close> keyed by whatever the device's \<open>id\<close> field holds.
  Lists and dicts are unhashable; numbers and booleans are equal keys when their values
  are equal; an assignment to an existing key keeps the key object already stored.
\<close>

fun hashable :: "json \<Rightarrow> bool" where
  "hashable (JArr xs) = False"
| "hashable (JObj kvs) = False"
| "hashable v = True"

fun num_val :: "json \<Rightarrow> rat option" where
  "num_val (JBool b) = Some (if b then 1 else 0)"
| "num_val (JInt i) = Some (of_int i)"
| "num_val (JFloat r) = Some r"
| "num_val v = None"

definition py_eq :: "json \<Rightarrow> json \<Rightarrow> bool" where
  "py_eq a b =
     (case (num_val a, num_val b) of
        (Some x, Some y) \<Rightarrow> x = y
      | (None, None) \<Rightarrow> a = b
      | _ \<Rightarrow> False)"

fun dict_setitem :: "(json \<times> 'v) list \<Rightarrow> json \<Rightarrow> 'v \<Rightarrow> (json \<times> 'v) list" where
  "dict_setitem [] k v = [(k, v)]"
| "dict_setitem ((k', v') # kvs) k v =
     (if py_eq k' k then (k', v) # kvs else (k', v') # dict_setitem kvs k v)"

type_synonym ext_bundle = "(string \<times> json) list"

text \<open>
  The body of \<open>for d in devices\<close>: \<open>None\<close> for a device that is skipped, the device id
  and its bundle otherwise. The assignment \<open>extended_by_device[device_id] = ext\<close> comes
  after both fetches, so an unhashable id raises only then.
\<close>

definition update_device ::
  "server \<Rightarrow> http_request list \<Rightarrow> json
    \<Rightarrow> (exn + (json \<times> ext_bundle) option) \<times> http_request list" where
  "update_device srv hist d =
     (case get d ''id'' of
        Inl e \<Rightarrow> (Inl e, hist)
      | Inr device_id \<Rightarrow>
          if \<not> truthy device_id then (Inr None, hist)
          else
            (case async_get_extended srv hist device_id ''position'' 1 1 of
               (Inl e, h1) \<Rightarrow> (Inl e, h1)
             | (Inr pos_payload, h1) \<Rightarrow>
                 (case extract_extended_rows pos_payload ''position'' of
                    Inl e \<Rightarrow> (Inl e, h1)
                  | Inr pos_rows \<Rightarrow>
                      (let ext1 = (case pos_rows of [] \<Rightarrow> []
                                   | r # _ \<Rightarrow> [(''position_latest'', r)])
                       in case async_get_extended srv h1 device_id ''voltage'' 1 1 of
                            (Inl e, h2) \<Rightarrow> (Inl e, h2)
                          | (Inr volt_payload, h2) \<Rightarrow>
                              (case extract_extended_rows volt_payload ''voltage'' of
                                 Inl e \<Rightarrow> (Inl e, h2)
                               | Inr volt_rows \<Rightarrow>
                                   (let ext2 = (case volt_rows of [] \<Rightarrow> ext1
                                                | r # _ \<Rightarrow> ext1 @ [(''voltage_latest'', r)])
                                    in if hashable device_id
                                       then (Inr (Some (device_id, ext2)), h2)
                                       else (Inl TypeError, h2)))))))"

fun update_devices ::
  "server \<Rightarrow> http_request list \<Rightarrow> json list \<Rightarrow> (json \<times> ext_bundle) list
    \<Rightarrow> (exn + (json \<times> ext_bundle) list) \<times> http_request list" where
  "update_devices srv hist [] extended_by_device = (Inr extended_by_device, hist)"
| "update_devices srv hist (d # ds) extended_by_device =
     (case update_device srv hist d of
        (Inl e, h) \<Rightarrow> (Inl e, h)
      | (Inr None, h) \<Rightarrow> update_devices srv h ds extended_by_device
      | (Inr (Some (device_id, ext)), h) \<Rightarrow>
          update_devices srv h ds (dict_setitem extended_by_device device_id ext))"

record snapshot =
  devices_payload :: json
  devices :: "json list"
  extended :: "(json \<times> ext_bundle) list"

text \<open>
  \<open>UpdateFailed e\<close> is the one signal a failed cycle raises; its message is \<open>str(e)\<close>
  for a \<open>SweTrackApiError\<close> and \<open>Unexpected error: ...\<close> for anything else.
\<close>

datatype update_failed = UpdateFailed exn

text \<open>The device array of line 40 to 42 of coordinator.py.\<close>

definition payload_devices :: "json \<Rightarrow> exn + json list" where
  "payload_devices payload =
     (case get payload ''data'' of
        Inl e \<Rightarrow> Inl e
      | Inr d \<Rightarrow>
          (case get (py_or d (JObj [])) ''devices'' of
             Inl e \<Rightarrow> Inl e
           | Inr dv \<Rightarrow> Inr (case py_or dv (JArr []) of JArr xs \<Rightarrow> xs | _ \<Rightarrow> [])))"

definition async_update_data ::
  "server \<Rightarrow> http_request list \<Rightarrow> bool \<Rightarrow> (update_failed + snapshot) \<times> http_request list" where
  "async_update_data srv hist fetch_extended =
     (case async_get_devices srv hist of
        (Inl e, h1) \<Rightarrow> (Inl (UpdateFailed e), h1)
      | (Inr payload, h1) \<Rightarrow>
          (case payload_devices payload of
             Inl e \<Rightarrow> (Inl (UpdateFailed e), h1)
           | Inr devs \<Rightarrow>
               if fetch_extended then
                 (case update_devices srv h1 devs [] of
                    (Inl e, h2) \<Rightarrow> (Inl (UpdateFailed e), h2)
                  | (Inr ext, h2) \<Rightarrow>
                      (Inr \<lparr>devices_payload = payload, devices = devs, extended = ext\<rparr>, h2))
               else (Inr \<lparr>devices_payload = payload, devices = devs, extended = []\<rparr>, h1)))"

text \<open>What the \<open>n\<close>-th request of a history was answered with, as the request layer saw it.\<close>

definition request_outcome :: "server \<Rightarrow> http_request list \<Rightarrow> nat \<Rightarrow> exn + json" where
  "request_outcome srv hist n = request_result (srv (take (Suc n) hist))"

text \<open>
  The requests made from history \<open>h\<close> on lead to history \<open>h'\<close>, and a request among
  them that the request layer answered with an error is the last one made and has failed
  the cycle.
\<close>

definition cycle_inv :: "server \<Rightarrow> http_request list \<Rightarrow> bool \<Rightarrow> http_request list \<Rightarrow> bool" where
  "cycle_inv srv h failed h' \<longleftrightarrow>
     (\<exists>made. h' = h @ made) \<and>
     (\<forall>n. length h \<le> n \<and> n < length h' \<and> isl (request_outcome srv h' n)
          \<longrightarrow> failed \<and> Suc n = length h')"

subsection \<open>Two remote ends and the requests they see\<close>

definition devices_request :: http_request where
  "devices_request = \<lparr>rq_method = ''GET'', rq_path = ''/devices/info'', rq_json = None\<rparr>"

definition extended_request :: "json \<Rightarrow> string \<Rightarrow> http_request" where
  "extended_request device_id typ =
     \<lparr>rq_method = ''POST'', rq_path = ''/device/info/extended'',
      rq_json = Some (JObj [(''deviceid'', device_id), (''type'', JStr typ),
                            (''page'', JInt 1), (''pagesize'', JInt 1)])\<rparr>"

definition one_car :: json where
  "one_car = JObj [(''success'', JBool True),
                   (''data'', JObj [(''devices'', JArr [JObj [(''id'', JStr ''d1''), (''name'', JStr ''Car'')]])])]"

definition position_row :: json where
  "position_row = JObj [(''latitude'', JFloat (593 / 10)), (''longitude'', JFloat 18),
                        (''positiontime'', JStr ''2026-02-04T10:00:00Z'')]"

definition steady_server :: server where
  "steady_server hist =
     (if length hist = 1 then Response 200 (Some one_car)
      else if length hist = 2
        then Response 200 (Some (JObj [(''success'', JBool True),
                                       (''data'', JObj [(''positions'', JArr [position_row])])]))
      else Response 200 (Some (JObj [(''success'', JBool True),
                                     (''data'', JObj [(''voltage'', JArr [])])])))"

definition rate_limited_server :: server where
  "rate_limited_server hist =
     (if length hist = 1 then Response 200 (Some one_car)
      else Response 200 (Some (JObj [(''success'', JBool False), (''error'', JStr ''rate limited'')])))"

text \<open>A remote end whose device list carries a list where the data object belongs.\<close>

definition list_data_server :: server where
  "list_data_server hist =
     Response 200 (Some (JObj [(''success'', JBool True), (''data'', JArr [JInt 1])]))"

section \<open>The standalone tool (swetrack_extended.py)\<close>

text \<open>
  \<open>api_get\<close> and \<open>api_post\<close>: \<open>raise_for_status\<close> raises for a status from 400 to 599,
  then \<open>r.json()\<close> raises on a body that does not decode. Base URL, token and timeout
  belong to the transport and are left out.
\<close>

fun api_result :: "response \<Rightarrow> exn + json" where
  "api_result NoResponse = Inl ConnectionError"
| "api_result (Response status body) =
     (if 400 \<le> status \<and> status < 600 then Inl (HTTPError status)
      else case body of None \<Rightarrow> Inl JSONDecodeError | Some payload \<Rightarrow> Inr payload)"

definition api_get :: "server \<Rightarrow> http_request list \<Rightarrow> string \<Rightarrow> (exn + json) \<times> http_request list" where
  "api_get srv hist path =
     (let hist' = hist @ [\<lparr>rq_method = ''GET'', rq_path = path, rq_json = None\<rparr>]
      in (api_result (srv hist'), hist'))"

definition api_post ::
  "server \<Rightarrow> http_request list \<Rightarrow> string \<Rightarrow> json \<Rightarrow> (exn + json) \<times> http_request list" where
  "api_post srv hist path body =
     (let hist' = hist @ [\<lparr>rq_method = ''POST'', rq_path = path, rq_json = Some body\<rparr>]
      in (api_result (srv hist'), hist'))"

text \<open>
  \<open>get_devices\<close> (lines 81 to 85). The envelope test of the standalone tool is
  \<open>not payload.get("success")\<close>: it is the same test in \<open>main\<close> (line 219) and on every page
  of the paginator (line 125).
\<close>

definition get_devices :: "server \<Rightarrow> http_request list \<Rightarrow> (exn + json) \<times> http_request list" where
  "get_devices srv hist =
     (case api_get srv hist ''/devices/info'' of
        (Inl e, h) \<Rightarrow> (Inl e, h)
      | (Inr payload, h) \<Rightarrow>
          (case get payload ''success'' of
             Inl e \<Rightarrow> (Inl e, h)
           | Inr s \<Rightarrow>
               if \<not> truthy s
               then (case get payload ''error'' of
                       Inl e \<Rightarrow> (Inl e, h)
                     | Inr er \<Rightarrow> (Inl (RuntimeError (py_or er payload)), h))
               else (case get_default payload ''data'' (JObj []) of
                       Inl e \<Rightarrow> (Inl e, h)
                     | Inr d \<Rightarrow>
                         (case get_default d ''devices'' (JArr []) of
                            Inl e \<Rightarrow> (Inl e, h)
                          | Inr dv \<Rightarrow> (Inr (py_or dv (JArr [])), h)))))"

text \<open>
  The \<open>success\<close> field as \<open>.get\<close> reads it, and the error detail both programs build,
  \<open>data.get('error') or data\<close>.
\<close>

definition success_flag :: "json \<Rightarrow> json" where
  "success_flag data = (case data of JObj kvs \<Rightarrow> dict_get kvs ''success'' | _ \<Rightarrow> JNull)"

definition error_detail :: "json \<Rightarrow> json" where
  "error_detail data =
     (case data of JObj kvs \<Rightarrow> py_or (dict_get kvs ''error'') data | _ \<Rightarrow> data)"

text \<open>
  The request body of one page (lines 109 to 119): the time filters are added only when
  they are truthy, that is given and not the empty string.
\<close>

definition request_body ::
  "json \<Rightarrow> string \<Rightarrow> string option \<Rightarrow> string option \<Rightarrow> int \<Rightarrow> int \<Rightarrow> json" where
  "request_body device_id typ start_iso stop_iso pagesize page =
     JObj ([(''deviceid'', device_id), (''type'', JStr typ),
            (''page'', JInt page), (''pagesize'', JInt pagesize)]
           @ (case start_iso of Some s \<Rightarrow> if s \<noteq> [] then [(''startdatetime'', JStr s)] else []
              | None \<Rightarrow> [])
           @ (case stop_iso of Some s \<Rightarrow> if s \<noteq> [] then [(''stopdatetime'', JStr s)] else []
              | None \<Rightarrow> []))"

text \<open>
  The rows of one page (lines 128 to 146), for a payload that is a \<open>dict\<close> whose
  \<open>success\<close> field is truthy: \<open>None\<close> becomes the empty list, any other value that is
  not a list is wrapped into a one-element list.
\<close>

definition page_rows :: "string \<Rightarrow> (string \<times> json) list \<Rightarrow> json list" where
  "page_rows typ payload =
     (let data = py_or (dict_get_default payload ''data'' (JObj [])) (JObj []);
          rows0 = (case data of
                     JObj d \<Rightarrow>
                       (if typ = ''position'' then dict_get_default d ''positions'' (JArr [])
                        else if typ = ''voltage'' then dict_get_default d ''voltage'' (JArr [])
                        else py_or (dict_get d typ) (py_or (dict_get d (typ @ ''s'')) (JArr [])))
                   | _ \<Rightarrow> JArr []);
          rows1 = (if rows0 = JNull then JArr [] else rows0)
      in case rows1 of JArr xs \<Rightarrow> xs | v \<Rightarrow> [v])"

text \<open>
  The value the per-type rule extracts from the data object, before anything is done
  about its shape: lines 131 to 139 of the tool and lines 16 to 23 of the coordinator are
  the same expressions.
\<close>

definition per_type_value :: "string \<Rightarrow> (string \<times> json) list \<Rightarrow> json" where
  "per_type_value typ d =
     (if typ = ''position'' then dict_get_default d ''positions'' (JArr [])
      else if typ = ''voltage'' then dict_get_default d ''voltage'' (JArr [])
      else py_or (dict_get d typ) (py_or (dict_get d (typ @ ''s'')) (JArr [])))"

text \<open>
  The pagination object of line 152: \<open>payload.get("data", {})\<close> is not guarded here, so
  a \<open>data\<close> field that is present and not a \<open>dict\<close> raises when the top-level
  \<open>pagination\<close> is falsy.
\<close>

definition page_pagination :: "(string \<times> json) list \<Rightarrow> exn + json" where
  "page_pagination payload =
     (let p = dict_get payload ''pagination''
      in if truthy p then Inr p
         else case get (dict_get_default payload ''data'' (JObj [])) ''pagination'' of
                Inl e \<Rightarrow> Inl e
              | Inr q \<Rightarrow> Inr (py_or q (JObj [])))"

text \<open>
  \<open>cur_page >= total_pages\<close> where \<open>total_pages\<close> is an \<open>int\<close>: numbers compare by
  value, anything else raises \<open>TypeError\<close>.
\<close>

definition ge_int :: "json \<Rightarrow> json \<Rightarrow> exn + bool" where
  "ge_int a b =
     (case (num_val a, num_val b) of
        (Some x, Some y) \<Rightarrow> Inr (x \<ge> y)
      | _ \<Rightarrow> Inl TypeError)"

text \<open>
  The slice \<open>xs[:n]\<close>: a negative \<open>n\<close> counts from the end.
\<close>

definition slice_upto :: "'a list \<Rightarrow> int \<Rightarrow> 'a list" where
  "slice_upto xs n = (if 0 \<le> n then take (nat n) xs else take (length xs - nat (- n)) xs)"

text \<open>
  The function returns a 2-tuple at two of its \<open>return\<close> statements and a 3-tuple at
  the third; the shape is part of the result.
\<close>

datatype fetch_result = Pair "json list" json | Triple "json list" json "json list"


definition last_meta :: "(string \<times> json) list \<Rightarrow> json" where
  "last_meta payload = py_or (dict_get_default payload ''meta'' (JObj [])) (JObj [])"

text \<open>
  What one pass through the loop body does with the payload it received (lines 123 to
  165): raise, return, or go on with the next page.
\<close>

datatype page_outcome = Raise exn | Return fetch_result | NextPage "json list" int "json list"

definition page_step ::
  "string \<Rightarrow> int \<Rightarrow> json list \<Rightarrow> int \<Rightarrow> json list \<Rightarrow> json \<Rightarrow> page_outcome" where
  "page_step typ max_rows all_rows page raw_pages payload =
     (case payload of
        JObj kvs \<Rightarrow>
          if \<not> truthy (dict_get kvs ''success'')
          then Raise (RuntimeError (py_or (dict_get kvs ''error'') payload))
          else
            (let rows = page_rows typ kvs;
                 all_rows' = all_rows @ rows;
                 meta = last_meta kvs
             in case page_pagination kvs of
                  Inl e \<Rightarrow> Raise e
                | Inr pagination \<Rightarrow>
                    (case get pagination ''total_pages'' of
                       Inl e \<Rightarrow> Raise e
                     | Inr total_pages \<Rightarrow>
                         (case get_default pagination ''page'' (JInt page) of
                            Inl e \<Rightarrow> Raise e
                          | Inr cur_page \<Rightarrow>
                              if int (length all_rows') \<ge> max_rows
                              then Return (Pair (slice_upto all_rows' max_rows) meta)
                              else if rows = [] then Return (Pair all_rows' meta)
                              else if is_int total_pages
                              then (case ge_int cur_page total_pages of
                                      Inl e \<Rightarrow> Raise e
                                    | Inr stop \<Rightarrow>
                                        if stop
                                        then Return (Triple all_rows' meta (raw_pages @ [payload]))
                                        else NextPage all_rows' (page + 1) (raw_pages @ [payload]))
                              else NextPage all_rows' (page + 1) (raw_pages @ [payload]))))
      | _ \<Rightarrow> Raise AttributeError)"

text \<open>
  One iteration with its request, and the loop \<open>while True\<close>. The loop has no bound of
  its own: a fetch that never stops is \<open>None\<close>.
\<close>

datatype iteration =
    Done "exn + fetch_result" "http_request list"
  | Again "http_request list" "json list" int "json list"

definition loop_body ::
  "server \<Rightarrow> json \<Rightarrow> string \<Rightarrow> string option \<Rightarrow> string option \<Rightarrow> int \<Rightarrow> int
    \<Rightarrow> http_request list \<Rightarrow> json list \<Rightarrow> int \<Rightarrow> json list \<Rightarrow> iteration" where
  "loop_body srv device_id typ start_iso stop_iso pagesize max_rows hist all_rows page raw_pages =
     (case api_post srv hist ''/device/info/extended''
             (request_body device_id typ start_iso stop_iso pagesize page) of
        (Inl e, h) \<Rightarrow> Done (Inl e) h
      | (Inr payload, h) \<Rightarrow>
          (case page_step typ max_rows all_rows page raw_pages payload of
             Raise e \<Rightarrow> Done (Inl e) h
           | Return r \<Rightarrow> Done (Inr r) h
           | NextPage all_rows' page' raw_pages' \<Rightarrow> Again h all_rows' page' raw_pages'))"

partial_function (option) fetch_loop ::
  "server \<Rightarrow> json \<Rightarrow> string \<Rightarrow> string option \<Rightarrow> string option \<Rightarrow> int \<Rightarrow> int
    \<Rightarrow> http_request list \<Rightarrow> json list \<Rightarrow> int \<Rightarrow> json list
    \<Rightarrow> ((exn + fetch_result) \<times> http_request list) option" where
  "fetch_loop srv device_id typ start_iso stop_iso pagesize max_rows hist all_rows page raw_pages =
     (case loop_body srv device_id typ start_iso stop_iso pagesize max_rows
             hist all_rows page raw_pages of
        Done r h \<Rightarrow> Some (r, h)
      | Again h all_rows' page' raw_pages' \<Rightarrow>
          fetch_loop srv device_id typ start_iso stop_iso pagesize max_rows
            h all_rows' page' raw_pages')"

definition fetch_extended_all_pages ::
  "server \<Rightarrow> http_request list \<Rightarrow> json \<Rightarrow> string \<Rightarrow> string option \<Rightarrow> string option
    \<Rightarrow> int \<Rightarrow> int \<Rightarrow> ((exn + fetch_result) \<times> http_request list) option" where
  "fetch_extended_all_pages srv hist device_id typ start_iso stop_iso pagesize max_rows =
     fetch_loop srv device_id typ start_iso stop_iso pagesize max_rows hist [] 1 []"

text \<open>
  The loop state (history, accumulated rows, page number, raw pages) at the top of the
  loop after \<open>n\<close> pages that all asked for a next page; \<open>None\<close> when the fetch has
  ended before.
\<close>

fun state_after ::
  "nat \<Rightarrow> server \<Rightarrow> json \<Rightarrow> string \<Rightarrow> string option \<Rightarrow> string option \<Rightarrow> int \<Rightarrow> int
    \<Rightarrow> http_request list \<Rightarrow> (http_request list \<times> json list \<times> int \<times> json list) option" where
  "state_after 0 srv device_id typ start_iso stop_iso pagesize max_rows hist =
     Some (hist, [], 1, [])"
| "state_after (Suc n) srv device_id typ start_iso stop_iso pagesize max_rows hist =
     (case state_after n srv device_id typ start_iso stop_iso pagesize max_rows hist of
        None \<Rightarrow> None
      | Some (h, all_rows, page, raw_pages) \<Rightarrow>
          (case loop_body srv device_id typ start_iso stop_iso pagesize max_rows
                  h all_rows page raw_pages of
             Done r h' \<Rightarrow> None
           | Again h' all_rows' page' raw_pages' \<Rightarrow> Some (h', all_rows', page', raw_pages')))"






text \<open>
  \<open>main\<close> from line 231 on. An entry of \<open>dev_out["extended"]\<close> is either
  \<open>{"error": str(e), "rows": []}\<close> or \<open>{"rows": rows, "meta": meta}\<close>. The \<open>try\<close> block
  holds the call and the unpacking of its result into three names, which fails with
  \<open>ValueError\<close> on a 2-tuple. The raw dump is left out.
\<close>

datatype ext_entry = ErrorEntry exn | RowsEntry "json list" json



text \<open>
  Standard output. A line is given by what it is built from: the device line of line
  236, the error line of line 260, the summary line of lines 273 to 295. The console is
  a function of everything printed so far, the line being printed last; it lets the line
  through or raises (\<open>UnicodeEncodeError\<close> on text the stream cannot encode,
  \<open>BrokenPipeError\<close> on a closed pipe).
\<close>

datatype console_line =
    DeviceLine json json json json
  | ErrorLine string exn
  | SummaryLine string "json list"

type_synonym console = "console_line list \<Rightarrow> exn option"

definition print_line ::
  "console \<Rightarrow> console_line list \<Rightarrow> console_line \<Rightarrow> exn option \<times> console_line list" where
  "print_line con printed l = (let printed' = printed @ [l] in (con printed', printed'))"

text \<open>
  The \<open>except\<close> clause (lines 259 to 262) prints the error line and then stores the
  error entry: an exception of that \<open>print\<close> leaves the handler and ends the run. After a
  fetch that returned three values (lines 264 to 295) the entry is stored and the summary
  line printed.
\<close>

definition except_handler ::
  "console \<Rightarrow> console_line list \<Rightarrow> string \<Rightarrow> exn \<Rightarrow> (json \<times> ext_entry) list
    \<Rightarrow> (exn + (json \<times> ext_entry) list) \<times> console_line list" where
  "except_handler con printed typ e ext =
     (case print_line con printed (ErrorLine typ e) of
        (Some x, p) \<Rightarrow> (Inl x, p)
      | (None, p) \<Rightarrow> (Inr (dict_setitem ext (JStr typ) (ErrorEntry e)), p))"

definition after_fetch ::
  "console \<Rightarrow> console_line list \<Rightarrow> string \<Rightarrow> json list \<Rightarrow> json \<Rightarrow> (json \<times> ext_entry) list
    \<Rightarrow> (exn + (json \<times> ext_entry) list) \<times> console_line list" where
  "after_fetch con printed typ rows meta ext =
     (let ext' = dict_setitem ext (JStr typ) (RowsEntry rows meta)
      in case print_line con printed (SummaryLine typ rows) of
           (Some x, p) \<Rightarrow> (Inl x, p)
         | (None, p) \<Rightarrow> (Inr ext', p))"

definition try_fetch ::
  "console \<Rightarrow> console_line list \<Rightarrow> string \<Rightarrow> exn + fetch_result \<Rightarrow> (json \<times> ext_entry) list
    \<Rightarrow> (exn + (json \<times> ext_entry) list) \<times> console_line list" where
  "try_fetch con printed typ outcome ext =
     (case outcome of
        Inl e \<Rightarrow> except_handler con printed typ e ext
      | Inr (Pair rows meta) \<Rightarrow> except_handler con printed typ ValueError ext
      | Inr (Triple rows meta raw_pages) \<Rightarrow> after_fetch con printed typ rows meta ext)"

fun fetch_types ::
  "server \<Rightarrow> console \<Rightarrow> string option \<Rightarrow> string option \<Rightarrow> int \<Rightarrow> int
    \<Rightarrow> http_request list \<Rightarrow> console_line list \<Rightarrow> json \<Rightarrow> string list
    \<Rightarrow> (json \<times> ext_entry) list
    \<Rightarrow> ((exn + (json \<times> ext_entry) list) \<times> http_request list \<times> console_line list) option" where
  "fetch_types srv con start_iso stop_iso pagesize max_rows hist printed dev_id [] ext =
     Some (Inr ext, hist, printed)"
| "fetch_types srv con start_iso stop_iso pagesize max_rows hist printed dev_id (typ # types) ext =
     (case fetch_extended_all_pages srv hist dev_id typ start_iso stop_iso pagesize max_rows of
        None \<Rightarrow> None
      | Some (outcome, h) \<Rightarrow>
          (case try_fetch con printed typ outcome ext of
             (Inl x, p) \<Rightarrow> Some (Inl x, h, p)
           | (Inr ext', p) \<Rightarrow>
               fetch_types srv con start_iso stop_iso pagesize max_rows h p dev_id types ext'))"

record dev_out =
  out_id :: json
  out_name :: json
  out_model :: json
  out_status :: json
  out_extended :: "(json \<times> ext_entry) list"

text \<open>
  Lines 232 to 235, outside the \<open>try\<close> block: a device that is not a \<open>dict\<close>, or whose
  \<open>model\<close> is truthy and not a \<open>dict\<close>, raises here.
\<close>

definition device_header :: "json \<Rightarrow> exn + (json \<times> json \<times> json \<times> json)" where
  "device_header d =
     (case get d ''id'' of
        Inl e \<Rightarrow> Inl e
      | Inr dev_id \<Rightarrow>
          (case get_default d ''name'' (JStr ''-'') of
             Inl e \<Rightarrow> Inl e
           | Inr name \<Rightarrow>
               (case get d ''model'' of
                  Inl e \<Rightarrow> Inl e
                | Inr m \<Rightarrow>
                    (case get_default (py_or m (JObj [])) ''model'' (JStr ''-'') of
                       Inl e \<Rightarrow> Inl e
                     | Inr model \<Rightarrow>
                         (case get_default d ''status'' (JStr ''-'') of
                            Inl e \<Rightarrow> Inl e
                          | Inr status \<Rightarrow> Inr (dev_id, name, model, status))))))"

fun main_devices ::
  "server \<Rightarrow> console \<Rightarrow> string option \<Rightarrow> string option \<Rightarrow> int \<Rightarrow> int \<Rightarrow> string list
    \<Rightarrow> http_request list \<Rightarrow> console_line list \<Rightarrow> json list \<Rightarrow> dev_out list
    \<Rightarrow> ((exn + dev_out list) \<times> http_request list \<times> console_line list) option" where
  "main_devices srv con start_iso stop_iso pagesize max_rows types hist printed [] outs =
     Some (Inr outs, hist, printed)"
| "main_devices srv con start_iso stop_iso pagesize max_rows types hist printed (d # ds) outs =
     (case device_header d of
        Inl e \<Rightarrow> Some (Inl e, hist, printed)
      | Inr (dev_id, name, model, status) \<Rightarrow>
          (case print_line con printed (DeviceLine name model dev_id status) of
             (Some x, p) \<Rightarrow> Some (Inl x, hist, p)
           | (None, p) \<Rightarrow>
               (case fetch_types srv con start_iso stop_iso pagesize max_rows hist p dev_id types [] of
                  None \<Rightarrow> None
                | Some (Inl x, h, p') \<Rightarrow> Some (Inl x, h, p')
                | Some (Inr ext, h, p') \<Rightarrow>
                    main_devices srv con start_iso stop_iso pagesize max_rows types h p' ds
                      (outs @ [\<lparr>out_id = dev_id, out_name = name, out_model = model,
                                out_status = status, out_extended = ext\<rparr>]))))"


subsection \<open>Remote ends and requests of the standalone tool\<close>

definition page_request :: "json \<Rightarrow> string \<Rightarrow> int \<Rightarrow> int \<Rightarrow> http_request" where
  "page_request device_id typ pagesize page =
     \<lparr>rq_method = ''POST'', rq_path = ''/device/info/extended'',
      rq_json = Some (request_body device_id typ None None pagesize page)\<rparr>"

definition null_data_page :: json where
  "null_data_page = JObj [(''success'', JBool True), (''data'', JNull)]"

definition null_data_server :: server where
  "null_data_server hist = Response 200 (Some null_data_page)"

definition fixed_page :: "json list \<Rightarrow> json \<Rightarrow> json" where
  "fixed_page rows pagination =
     JObj [(''success'', JBool True), (''data'', JObj [(''positions'', JArr rows)]),
           (''pagination'', pagination)]"

definition fixed_server :: "json list \<Rightarrow> json \<Rightarrow> server" where
  "fixed_server rows pagination hist = Response 200 (Some (fixed_page rows pagination))"

definition row :: "int \<Rightarrow> json" where
  "row n = JObj [(''n'', JInt n)]"

definition lone_position :: json where
  "lone_position = JObj [(''latitude'', JFloat (593 / 10)), (''longitude'', JFloat 18)]"


definition car :: json where
  "car = JObj [(''id'', JStr ''d1''), (''name'', JStr ''Car'')]"

definition devices_info_request :: http_request where
  "devices_info_request = \<lparr>rq_method = ''GET'', rq_path = ''/devices/info'', rq_json = None\<rparr>"

definition no_flag_payload :: json where
  "no_flag_payload = JObj [(''data'', JObj [(''devices'', JArr [])])]"

definition no_flag_server :: server where
  "no_flag_server hist = Response 200 (Some no_flag_payload)"

definition lone_humidity :: json where
  "lone_humidity = JObj [(''value'', JInt 41)]"

definition quiet_console :: console where
  "quiet_console lines = None"




section \<open>Results about the envelope checks\<close>

lemma request_result_2xx:
  "200 \<le> status \<and> status < 300 \<longrightarrow>
     (isl (request_result (Response status (Some data)))
        \<longleftrightarrow> (\<not> is_dict data \<or> success_is_false data))
   \<and> (success_is_false data \<longrightarrow>
        request_result (Response status (Some data)) =
          Inl (SweTrackApiError_api
                (if truthy (spec_error_detail data) then spec_error_detail data else data)))
   \<and> (is_dict data \<and> \<not> success_is_false data \<longrightarrow>
        request_result (Response status (Some data)) = Inr data)"
  by (cases data)
     (auto simp: success_is_false_def spec_error_detail_def py_or_def dict_get_def
                 dict_get_default_def split: option.splits)

lemma get_devices_2xx:
  assumes "200 \<le> status" "status < 300"
    and "srv (hist @ [devices_info_request]) = Response status (Some data)"
  shows "snd (get_devices srv hist) = hist @ [devices_info_request]"
    and "\<not> is_dict data \<Longrightarrow> fst (get_devices srv hist) = Inl AttributeError"
    and "is_dict data \<Longrightarrow> \<not> truthy (success_flag data)
           \<Longrightarrow> fst (get_devices srv hist) = Inl (RuntimeError (error_detail data))"
    and "is_dict data \<Longrightarrow> truthy (success_flag data)
           \<Longrightarrow> fst (get_devices srv hist) \<noteq> Inl (RuntimeError detail)"
proof -
  have post: "api_get srv hist ''/devices/info'' = (Inr data, hist @ [devices_info_request])"
    using assms by (simp add: api_get_def devices_info_request_def Let_def)
  show "snd (get_devices srv hist) = hist @ [devices_info_request]"
    by (simp add: get_devices_def post split: sum.splits)
  show "\<not> is_dict data \<Longrightarrow> fst (get_devices srv hist) = Inl AttributeError"
    by (cases data) (simp_all add: get_devices_def post get_def)
  show "is_dict data \<Longrightarrow> \<not> truthy (success_flag data)
           \<Longrightarrow> fst (get_devices srv hist) = Inl (RuntimeError (error_detail data))"
    by (cases data)
       (simp_all add: get_devices_def post get_def success_flag_def error_detail_def dict_get_def
          dict_get_default_def)
  have gd: "get_default v k d \<noteq> Inl (RuntimeError detail)" for v k d
    by (cases v) simp_all
  show "is_dict data \<Longrightarrow> truthy (success_flag data)
           \<Longrightarrow> fst (get_devices srv hist) \<noteq> Inl (RuntimeError detail)"
    using gd
    by (cases data)
       (auto simp: get_devices_def post get_def success_flag_def dict_get_def
          dict_get_default_def split: sum.splits)
qed

lemma page_step_envelope:
  shows "\<not> is_dict payload
           \<Longrightarrow> page_step typ max_rows all_rows page raw_pages payload = Raise AttributeError"
    and "is_dict payload \<Longrightarrow> \<not> truthy (success_flag payload)
           \<Longrightarrow> page_step typ max_rows all_rows page raw_pages payload
                 = Raise (RuntimeError (error_detail payload))"
    and "is_dict payload \<Longrightarrow> truthy (success_flag payload)
           \<Longrightarrow> page_step typ max_rows all_rows page raw_pages payload
                 \<noteq> Raise (RuntimeError detail)"
proof -
  show "\<not> is_dict payload
           \<Longrightarrow> page_step typ max_rows all_rows page raw_pages payload = Raise AttributeError"
    by (cases payload) (simp_all add: page_step_def)
  show "is_dict payload \<Longrightarrow> \<not> truthy (success_flag payload)
           \<Longrightarrow> page_step typ max_rows all_rows page raw_pages payload
                 = Raise (RuntimeError (error_detail payload))"
    by (cases payload) (simp_all add: page_step_def success_flag_def error_detail_def)
  show "is_dict payload \<Longrightarrow> truthy (success_flag payload)
           \<Longrightarrow> page_step typ max_rows all_rows page raw_pages payload
                 \<noteq> Raise (RuntimeError detail)"
  proof (cases payload)
    case (JObj kvs)
    assume "truthy (success_flag payload)"
    with JObj have ok: "truthy (dict_get kvs ''success'')" by (simp add: success_flag_def)
    have pg: "page_pagination kvs \<noteq> Inl (RuntimeError detail)"
      by (cases "dict_get_default kvs ''data'' (JObj [])")
         (simp_all add: page_pagination_def get_def Let_def)
    have g: "get v k \<noteq> Inl (RuntimeError detail)" for v k
      by (cases v) (simp_all add: get_def)
    have gd: "get_default v k d \<noteq> Inl (RuntimeError detail)" for v k d
      by (cases v) simp_all
    have ge: "ge_int a b \<noteq> Inl (RuntimeError detail)" for a b
      by (simp add: ge_int_def split: option.splits)
    show ?thesis
      using ok pg g gd ge
      by (auto simp: JObj page_step_def Let_def split: sum.splits)
  qed simp_all
qed

text \<open>
  C2, as the code has it. In the integration's request layer (\<open>_request\<close>), for a decoded
  value that arrived with a 2xx status: it raises exactly when the value is not an object
  or its \<open>success\<close> field is the boolean false; the error detail is then the \<open>error\<close>
  field if that field is present and truthy, and the whole object otherwise; in every
  other case the object is returned unchanged. In the standalone tool (\<open>get_devices\<close> and
  every page of the paginator) the test is \<open>not payload.get("success")\<close>: a value that is
  not an object raises \<open>AttributeError\<close>, an object whose \<open>success\<close> field is absent or
  falsy raises \<open>RuntimeError\<close> with the same detail, and an object with a truthy
  \<open>success\<close> field never does.
\<close>

theorem request_2xx_classification:
  "(200 \<le> status \<and> status < 300 \<longrightarrow>
     (isl (request_result (Response status (Some data)))
        \<longleftrightarrow> (\<not> is_dict data \<or> success_is_false data))
   \<and> (success_is_false data \<longrightarrow>
        request_result (Response status (Some data)) =
          Inl (SweTrackApiError_api
                (if truthy (spec_error_detail data) then spec_error_detail data else data)))
   \<and> (is_dict data \<and> \<not> success_is_false data \<longrightarrow>
        request_result (Response status (Some data)) = Inr data))
   \<and> (200 \<le> status \<and> status < 300
        \<and> srv (hist @ [devices_info_request]) = Response status (Some data) \<longrightarrow>
       (\<not> is_dict data \<longrightarrow> fst (get_devices srv hist) = Inl AttributeError)
     \<and> (is_dict data \<and> \<not> truthy (success_flag data) \<longrightarrow>
          fst (get_devices srv hist) = Inl (RuntimeError (error_detail data)))
     \<and> (is_dict data \<and> truthy (success_flag data) \<longrightarrow>
          (\<forall>detail. fst (get_devices srv hist) \<noteq> Inl (RuntimeError detail))))
   \<and> (\<not> is_dict data \<longrightarrow>
        page_step typ max_rows all_rows page raw_pages data = Raise AttributeError)
   \<and> (is_dict data \<and> \<not> truthy (success_flag data) \<longrightarrow>
        page_step typ max_rows all_rows page raw_pages data
          = Raise (RuntimeError (error_detail data)))
   \<and> (is_dict data \<and> truthy (success_flag data) \<longrightarrow>
        (\<forall>detail. page_step typ max_rows all_rows page raw_pages data
                    \<noteq> Raise (RuntimeError detail)))"
proof (intro conjI)
  show "200 \<le> status \<and> status < 300 \<longrightarrow>
     (isl (request_result (Response status (Some data)))
        \<longleftrightarrow> (\<not> is_dict data \<or> success_is_false data))
   \<and> (success_is_false data \<longrightarrow>
        request_result (Response status (Some data)) =
          Inl (SweTrackApiError_api
                (if truthy (spec_error_detail data) then spec_error_detail data else data)))
   \<and> (is_dict data \<and> \<not> success_is_false data \<longrightarrow>
        request_result (Response status (Some data)) = Inr data)"
    by (rule request_result_2xx)
  show "200 \<le> status \<and> status < 300
        \<and> srv (hist @ [devices_info_request]) = Response status (Some data) \<longrightarrow>
       (\<not> is_dict data \<longrightarrow> fst (get_devices srv hist) = Inl AttributeError)
     \<and> (is_dict data \<and> \<not> truthy (success_flag data) \<longrightarrow>
          fst (get_devices srv hist) = Inl (RuntimeError (error_detail data)))
     \<and> (is_dict data \<and> truthy (success_flag data) \<longrightarrow>
          (\<forall>detail. fst (get_devices srv hist) \<noteq> Inl (RuntimeError detail)))"
    using get_devices_2xx(2,3,4) [of status srv hist data] by simp
  show "\<not> is_dict data \<longrightarrow>
        page_step typ max_rows all_rows page raw_pages data = Raise AttributeError"
    using page_step_envelope(1) by simp
  show "is_dict data \<and> \<not> truthy (success_flag data) \<longrightarrow>
        page_step typ max_rows all_rows page raw_pages data
          = Raise (RuntimeError (error_detail data))"
    using page_step_envelope(2) by simp
  show "is_dict data \<and> truthy (success_flag data) \<longrightarrow>
        (\<forall>detail. page_step typ max_rows all_rows page raw_pages data
                    \<noteq> Raise (RuntimeError detail))"
    using page_step_envelope(3) by simp
qed

theorem request_2xx_classification_witness:
  "request_result (Response 200 (Some (JObj [(''success'', JBool False), (''error'', JStr ''rate limited'')])))
     = Inl (SweTrackApiError_api (JStr ''rate limited''))
   \<and> request_result (Response 200 (Some no_flag_payload)) = Inr no_flag_payload
   \<and> fst (get_devices no_flag_server []) = Inl (RuntimeError no_flag_payload)
   \<and> page_step ''position'' 500 [] 1 [] no_flag_payload = Raise (RuntimeError no_flag_payload)"
  using request_2xx_classification
          [where status = 200
             and data = "JObj [(''success'', JBool False), (''error'', JStr ''rate limited'')]"]
        request_2xx_classification
          [where status = 200 and data = no_flag_payload and srv = no_flag_server and hist = "[]"
             and max_rows = 500 and all_rows = "[]" and page = 1 and raw_pages = "[]"]
  by (simp add: success_is_false_def spec_error_detail_def no_flag_payload_def no_flag_server_def
        success_flag_def error_detail_def dict_get_def dict_get_default_def py_or_def)

text \<open>
  C2 as worded fails in two places: in \<open>_request\<close> an \<open>error\<close> field that is present but
  falsy gives the whole object as the detail, and in the standalone tool an object without
  a \<open>success\<close> field is an error, not a payload.
\<close>

theorem request_layer_counterexample:
  "request_result (Response 200 (Some (JObj [(''success'', JBool False), (''error'', JStr '''')])))
     \<noteq> Inl (SweTrackApiError_api
             (spec_error_detail (JObj [(''success'', JBool False), (''error'', JStr '''')])))
   \<and> \<not> success_is_false no_flag_payload
   \<and> fst (get_devices no_flag_server []) = Inl (RuntimeError no_flag_payload)"
  by (simp add: spec_error_detail_def py_or_def dict_get_def dict_get_default_def
        success_is_false_def no_flag_payload_def no_flag_server_def get_devices_def api_get_def
        get_def Let_def)

section \<open>Results about the refresh cycle\<close>

subsection \<open>Every request error ends the cycle\<close>

lemma request_outcome_append:
  "n < length h \<Longrightarrow> request_outcome srv (h @ s) n = request_outcome srv h n"
  by (simp add: request_outcome_def)

lemma cycle_invI:
  assumes "\<exists>made. h' = h @ made"
    and "\<And>n. length h \<le> n \<Longrightarrow> n < length h' \<Longrightarrow> isl (request_outcome srv h' n)
           \<Longrightarrow> failed \<and> Suc n = length h'"
  shows "cycle_inv srv h failed h'"
  unfolding cycle_inv_def
proof (rule conjI)
  show "\<exists>made. h' = h @ made" by (rule assms(1))
  show "\<forall>n. length h \<le> n \<and> n < length h' \<and> isl (request_outcome srv h' n)
          \<longrightarrow> failed \<and> Suc n = length h'"
  proof (rule allI, rule impI)
    fix n assume "length h \<le> n \<and> n < length h' \<and> isl (request_outcome srv h' n)"
    then show "failed \<and> Suc n = length h'" using assms(2) [of n] by simp
  qed
qed

lemma cycle_inv_extends: "cycle_inv srv h failed h' \<Longrightarrow> \<exists>made. h' = h @ made"
  by (simp add: cycle_inv_def)

lemma cycle_inv_failure:
  assumes "cycle_inv srv h failed h'" "length h \<le> n" "n < length h'"
    "isl (request_outcome srv h' n)"
  shows "failed \<and> Suc n = length h'"
proof -
  from assms(1) have
    "\<forall>n. length h \<le> n \<and> n < length h' \<and> isl (request_outcome srv h' n)
        \<longrightarrow> failed \<and> Suc n = length h'"
    by (simp add: cycle_inv_def)
  then have "length h \<le> n \<and> n < length h' \<and> isl (request_outcome srv h' n)
        \<longrightarrow> failed \<and> Suc n = length h'"
    by (rule spec)
  with assms(2-4) show ?thesis by simp
qed

lemma cycle_inv_refl: "cycle_inv srv h failed h"
  by (rule cycle_invI) simp_all

lemma cycle_inv_weaken:
  assumes "cycle_inv srv h False h'"
  shows "cycle_inv srv h failed h'"
proof (rule cycle_invI)
  show "\<exists>made. h' = h @ made" using assms by (rule cycle_inv_extends)
next
  fix n assume "length h \<le> n" "n < length h'" "isl (request_outcome srv h' n)"
  with assms have "False \<and> Suc n = length h'" by (rule cycle_inv_failure)
  then show "failed \<and> Suc n = length h'" by simp
qed

lemma cycle_inv_trans:
  assumes "cycle_inv srv h False h1" "cycle_inv srv h1 failed h2"
  shows "cycle_inv srv h failed h2"
proof (rule cycle_invI)
  from cycle_inv_extends [OF assms(1)] obtain m1 where h1: "h1 = h @ m1" ..
  from cycle_inv_extends [OF assms(2)] obtain m2 where h2: "h2 = h1 @ m2" ..
  show "\<exists>made. h2 = h @ made" using h1 h2 by simp
  fix n assume n: "length h \<le> n" "n < length h2" "isl (request_outcome srv h2 n)"
  show "failed \<and> Suc n = length h2"
  proof (cases "n < length h1")
    case True
    then have "request_outcome srv h2 n = request_outcome srv h1 n"
      using h2 by (simp add: request_outcome_append)
    with n(3) have "isl (request_outcome srv h1 n)" by simp
    with assms(1) n(1) True have "False \<and> Suc n = length h1" by (rule cycle_inv_failure)
    then show ?thesis by simp
  next
    case False
    then have "length h1 \<le> n" by simp
    with assms(2) show ?thesis using n(2,3) by (rule cycle_inv_failure)
  qed
qed

lemma request_cycle_inv:
  assumes "SweTrackApiClient_request srv h m p j = (r, h')"
  shows "cycle_inv srv h (isl r) h'"
proof (rule cycle_invI)
  from assms have h': "h' = h @ [\<lparr>rq_method = m, rq_path = p, rq_json = j\<rparr>]"
    and r: "r = request_result (srv h')"
    by (auto simp: SweTrackApiClient_request_def Let_def)
  show "\<exists>made. h' = h @ made" using h' by simp
  fix n assume n: "length h \<le> n" "n < length h'" "isl (request_outcome srv h' n)"
  from n(1,2) h' have "Suc n = length h'" by simp
  moreover from this n(3) r have "isl r" by (simp add: request_outcome_def)
  ultimately show "isl r \<and> Suc n = length h'" by simp
qed

lemma async_get_extended_inv:
  "async_get_extended srv h dev typ p ps = (r, h') \<Longrightarrow> cycle_inv srv h (isl r) h'"
  unfolding async_get_extended_def by (rule request_cycle_inv)

lemma update_device_inv:
  assumes "update_device srv h d = (r, h')"
  shows "cycle_inv srv h (isl r) h'"
proof (cases "get d ''id''")
  case (Inl e)
  with assms have "h' = h" by (simp add: update_device_def)
  then show ?thesis by (simp add: cycle_inv_refl)
next
  case (Inr device_id)
  show ?thesis
  proof (cases "truthy device_id")
    case False
    with Inr assms have "h' = h" by (simp add: update_device_def)
    then show ?thesis by (simp add: cycle_inv_refl)
  next
    case True
    obtain r1 h1 where p1: "async_get_extended srv h device_id ''position'' 1 1 = (r1, h1)"
      by (cases "async_get_extended srv h device_id ''position'' 1 1")
    note i1 = async_get_extended_inv [OF p1]
    show ?thesis
    proof (cases r1)
      case (Inl e)
      with Inr True p1 assms have "r = Inl e" "h' = h1" by (simp_all add: update_device_def)
      with i1 Inl show ?thesis by simp
    next
      case pos: (Inr pos_payload)
      with i1 have i1': "cycle_inv srv h False h1" by simp
      show ?thesis
      proof (cases "extract_extended_rows pos_payload ''position''")
        case (Inl e)
        with Inr True p1 pos assms have "h' = h1" by (simp add: update_device_def)
        with i1' show ?thesis by (simp add: cycle_inv_weaken)
      next
        case rows1: (Inr pos_rows)
        obtain r2 h2 where p2: "async_get_extended srv h1 device_id ''voltage'' 1 1 = (r2, h2)"
          by (cases "async_get_extended srv h1 device_id ''voltage'' 1 1")
        note i2 = async_get_extended_inv [OF p2]
        show ?thesis
        proof (cases r2)
          case (Inl e)
          with Inr True p1 pos rows1 p2 assms have "r = Inl e" "h' = h2"
            by (simp_all add: update_device_def Let_def)
          moreover from i1' i2 have "cycle_inv srv h (isl r2) h2" by (rule cycle_inv_trans)
          ultimately show ?thesis using Inl by simp
        next
          case volt: (Inr volt_payload)
          with i2 have "cycle_inv srv h1 False h2" by simp
          with i1' have i12: "cycle_inv srv h False h2" by (rule cycle_inv_trans)
          from Inr True p1 pos rows1 p2 volt assms have "h' = h2"
            by (auto simp: update_device_def Let_def split: sum.splits if_splits)
          with i12 show ?thesis by (simp add: cycle_inv_weaken)
        qed
      qed
    qed
  qed
qed

lemma update_devices_inv:
  "update_devices srv h ds ext = (r, h') \<Longrightarrow> cycle_inv srv h (isl r) h'"
proof (induction ds arbitrary: h ext)
  case Nil
  then show ?case by (auto intro: cycle_inv_refl)
next
  case (Cons d ds)
  obtain r1 h1 where ud: "update_device srv h d = (r1, h1)" by (cases "update_device srv h d")
  note inv1 = update_device_inv [OF ud]
  show ?case
  proof (cases r1)
    case (Inl e)
    with Cons.prems ud inv1 show ?thesis by auto
  next
    case (Inr x)
    with inv1 have i1: "cycle_inv srv h False h1" by simp
    from Inr Cons.prems ud obtain ext' where "update_devices srv h1 ds ext' = (r, h')"
      by (cases x) (auto split: prod.splits)
    from Cons.IH [OF this] i1 show ?thesis by (rule cycle_inv_trans [rotated])
  qed
qed

lemma async_update_data_inv:
  assumes "async_update_data srv h fe = (res, h')"
  shows "cycle_inv srv h (isl res) h'"
proof -
  obtain r1 h1 where g: "async_get_devices srv h = (r1, h1)"
    by (cases "async_get_devices srv h")
  then have i1: "cycle_inv srv h (isl r1) h1"
    unfolding async_get_devices_def by (rule request_cycle_inv)
  show ?thesis
  proof (cases r1)
    case (Inl e)
    with g assms have "res = Inl (UpdateFailed e)" "h' = h1"
      by (simp_all add: async_update_data_def)
    with i1 Inl show ?thesis by simp
  next
    case pl: (Inr payload)
    with i1 have i1': "cycle_inv srv h False h1" by simp
    show ?thesis
    proof (cases "payload_devices payload")
      case (Inl e)
      with g pl assms have "h' = h1" by (simp add: async_update_data_def)
      with i1' show ?thesis by (simp add: cycle_inv_weaken)
    next
      case dv: (Inr devs)
      show ?thesis
      proof (cases fe)
        case False
        with g pl dv assms have "h' = h1" by (simp add: async_update_data_def)
        with i1' show ?thesis by (simp add: cycle_inv_weaken)
      next
        case True
        obtain r2 h2 where u: "update_devices srv h1 devs [] = (r2, h2)"
          by (cases "update_devices srv h1 devs []")
        note i2 = update_devices_inv [OF u]
        from True g pl dv u assms have "h' = h2" "isl res = isl r2"
          by (auto simp: async_update_data_def split: sum.splits)
        moreover from i1' i2 have "cycle_inv srv h (isl r2) h2" by (rule cycle_inv_trans)
        ultimately show ?thesis by simp
      qed
    qed
  qed
qed

lemma steady_run:
  "async_update_data steady_server [] True =
     (Inr \<lparr>devices_payload = one_car,
           devices = [JObj [(''id'', JStr ''d1''), (''name'', JStr ''Car'')]],
           extended = [(JStr ''d1'', [(''position_latest'', position_row)])]\<rparr>,
      [devices_request, extended_request (JStr ''d1'') ''position'',
       extended_request (JStr ''d1'') ''voltage''])"
  by (simp add: async_update_data_def async_get_devices_def SweTrackApiClient_request_def
        steady_server_def one_car_def payload_devices_def get_def py_or_def
        update_device_def async_get_extended_def extract_extended_rows_def
        dict_get_default_def dict_get_def devices_request_def extended_request_def Let_def)

lemma rate_limited_run:
  "async_update_data rate_limited_server [] True =
     (Inl (UpdateFailed (SweTrackApiError_api (JStr ''rate limited''))),
      [devices_request, extended_request (JStr ''d1'') ''position''])"
  by (simp add: async_update_data_def async_get_devices_def SweTrackApiClient_request_def
        rate_limited_server_def one_car_def payload_devices_def get_def py_or_def
        update_device_def async_get_extended_def extract_extended_rows_def
        dict_get_default_def dict_get_def devices_request_def extended_request_def Let_def)

text \<open>
  C1. In a refresh cycle with extended fetching on, the requests of the cycle extend the
  history; a request of the cycle that raised (no answer, undecodable body, status of
  400 or more, failed envelope, not an object) is the last request made, and the cycle
  then ends in the single \<open>UpdateFailed\<close> signal, with no snapshot. A cycle that
  returns a snapshot is one in which every request made succeeded.
\<close>

theorem refresh_all_or_nothing:
  assumes "async_update_data srv hist True = (res, hist')"
  shows "(\<exists>made. hist' = hist @ made) \<and>
         (\<forall>n. length hist \<le> n \<and> n < length hist' \<and> isl (request_outcome srv hist' n)
              \<longrightarrow> (\<exists>e. res = Inl (UpdateFailed e)) \<and> Suc n = length hist') \<and>
         (\<forall>snap. res = Inr snap \<longrightarrow>
              (\<forall>n. length hist \<le> n \<and> n < length hist' \<longrightarrow> \<not> isl (request_outcome srv hist' n)))"
proof -
  note inv = async_update_data_inv [OF assms]
  have failed: "\<exists>e. res = Inl (UpdateFailed e)" if "isl res"
  proof (cases res)
    case (Inl u)
    then show ?thesis by (cases u) simp
  next
    case (Inr snap)
    with that show ?thesis by simp
  qed
  have one: "(\<exists>e. res = Inl (UpdateFailed e)) \<and> Suc n = length hist'"
    if "length hist \<le> n" "n < length hist'" "isl (request_outcome srv hist' n)" for n
  proof -
    from inv that have "isl res \<and> Suc n = length hist'" by (rule cycle_inv_failure)
    with failed show ?thesis by simp
  qed
  have two: "\<not> isl (request_outcome srv hist' n)"
    if "res = Inr snap" "length hist \<le> n" "n < length hist'" for snap n
  proof
    assume "isl (request_outcome srv hist' n)"
    with inv that(2,3) have "isl res \<and> Suc n = length hist'" by (rule cycle_inv_failure)
    with that(1) show False by simp
  qed
  show ?thesis
  proof (intro conjI)
    show "\<exists>made. hist' = hist @ made" by (rule cycle_inv_extends [OF inv])
    show "\<forall>n. length hist \<le> n \<and> n < length hist' \<and> isl (request_outcome srv hist' n)
              \<longrightarrow> (\<exists>e. res = Inl (UpdateFailed e)) \<and> Suc n = length hist'"
    proof (rule allI, rule impI)
      fix n
      assume "length hist \<le> n \<and> n < length hist' \<and> isl (request_outcome srv hist' n)"
      then show "(\<exists>e. res = Inl (UpdateFailed e)) \<and> Suc n = length hist'"
        using one [of n] by simp
    qed
    show "\<forall>snap. res = Inr snap \<longrightarrow>
              (\<forall>n. length hist \<le> n \<and> n < length hist' \<longrightarrow> \<not> isl (request_outcome srv hist' n))"
    proof (intro allI impI)
      fix snap n
      assume "res = Inr snap" "length hist \<le> n \<and> n < length hist'"
      then show "\<not> isl (request_outcome srv hist' n)" using two [of snap n] by simp
    qed
  qed
qed

theorem refresh_all_or_nothing_witness:
  "async_update_data rate_limited_server [] True =
     (Inl (UpdateFailed (SweTrackApiError_api (JStr ''rate limited''))),
      [devices_request, extended_request (JStr ''d1'') ''position''])
   \<and> isl (request_outcome rate_limited_server
            [devices_request, extended_request (JStr ''d1'') ''position''] 1)
   \<and> \<not> isl (request_outcome rate_limited_server
            [devices_request, extended_request (JStr ''d1'') ''position''] 0)"
  using refresh_all_or_nothing [OF rate_limited_run] rate_limited_run
  by (simp add: request_outcome_def rate_limited_server_def one_car_def)

subsection \<open>Referential integrity of the snapshot\<close>

lemma dict_setitem_keys: "fst ` set (dict_setitem kvs k v) \<subseteq> insert k (fst ` set kvs)"
proof (induction kvs)
  case Nil
  show ?case by simp
next
  case (Cons kv kvs)
  obtain k' v' where kv: "kv = (k', v')" by (cases kv)
  show ?case
  proof (cases "py_eq k' k")
    case True
    with kv show ?thesis by auto
  next
    case False
    with kv Cons.IH show ?thesis by auto
  qed
qed

lemma update_device_id:
  assumes "update_device srv h d = (Inr (Some (k, e)), h')"
  shows "get d ''id'' = Inr k"
proof (cases "get d ''id''")
  case (Inl x)
  with assms show ?thesis by (simp add: update_device_def)
next
  case (Inr device_id)
  with assms have "k = device_id"
    by (simp add: update_device_def Let_def split: if_splits prod.splits sum.splits)
  with Inr show ?thesis by simp
qed

lemma update_devices_keys:
  "update_devices srv h ds ext = (Inr ext', h') \<Longrightarrow>
     \<forall>k \<in> fst ` set ext'. k \<in> fst ` set ext \<or> (\<exists>d \<in> set ds. get d ''id'' = Inr k)"
proof (induction ds arbitrary: h ext)
  case Nil
  then show ?case by simp
next
  case (Cons d ds)
  obtain r1 h1 where ud: "update_device srv h d = (r1, h1)" by (cases "update_device srv h d")
  show ?case
  proof (cases r1)
    case (Inl e)
    with Cons.prems ud show ?thesis by simp
  next
    case (Inr x)
    show ?thesis
    proof (cases x)
      case None
      with Inr ud Cons.prems have "update_devices srv h1 ds ext = (Inr ext', h')" by simp
      from Cons.IH [OF this] show ?thesis by auto
    next
      case (Some ke)
      obtain k0 e0 where ke: "ke = (k0, e0)" by (cases ke)
      with Some Inr ud Cons.prems
      have rest: "update_devices srv h1 ds (dict_setitem ext k0 e0) = (Inr ext', h')" by simp
      from ud Inr Some ke have id: "get d ''id'' = Inr k0" by (auto intro: update_device_id)
      show ?thesis
      proof
        fix k assume "k \<in> fst ` set ext'"
        with Cons.IH [OF rest]
        have "k \<in> fst ` set (dict_setitem ext k0 e0) \<or> (\<exists>d \<in> set ds. get d ''id'' = Inr k)"
          by (rule bspec)
        then show "k \<in> fst ` set ext \<or> (\<exists>d \<in> set (d # ds). get d ''id'' = Inr k)"
        proof
          assume "k \<in> fst ` set (dict_setitem ext k0 e0)"
          with dict_setitem_keys [of ext k0 e0] have "k = k0 \<or> k \<in> fst ` set ext" by auto
          with id show ?thesis by auto
        next
          assume "\<exists>d \<in> set ds. get d ''id'' = Inr k"
          then show ?thesis by auto
        qed
      qed
    qed
  qed
qed

text \<open>
  C7. In every snapshot a refresh cycle returns, whatever the remote end answered, each
  key of the extended mapping is the \<open>id\<close> field of a device of the snapshot's device
  list.
\<close>

theorem extended_keys_are_device_ids:
  assumes "async_update_data srv hist fetch_extended = (Inr snap, hist')"
  shows "\<forall>k \<in> fst ` set (extended snap). \<exists>d \<in> set (devices snap). get d ''id'' = Inr k"
proof -
  obtain r1 h1 where g: "async_get_devices srv hist = (r1, h1)"
    by (cases "async_get_devices srv hist")
  with assms obtain payload where r1: "r1 = Inr payload"
    by (cases r1) (simp_all add: async_update_data_def)
  with g assms obtain devs where dv: "payload_devices payload = Inr devs"
    by (cases "payload_devices payload") (simp_all add: async_update_data_def)
  show ?thesis
  proof (cases fetch_extended)
    case False
    with g r1 dv assms have "extended snap = []" by (auto simp: async_update_data_def)
    then show ?thesis by simp
  next
    case True
    obtain r2 h2 where u: "update_devices srv h1 devs [] = (r2, h2)"
      by (cases "update_devices srv h1 devs []")
    with True g r1 dv assms obtain ext where r2: "r2 = Inr ext"
      by (cases r2) (simp_all add: async_update_data_def)
    with True g r1 dv u assms have snap: "devices snap = devs" "extended snap = ext"
      by (auto simp: async_update_data_def)
    from update_devices_keys [OF u [unfolded r2]] snap show ?thesis by simp
  qed
qed

theorem extended_keys_are_device_ids_witness:
  "fst ` set [(JStr ''d1'', [(''position_latest'', position_row)])] = {JStr ''d1''}
   \<and> (\<exists>d \<in> set [JObj [(''id'', JStr ''d1''), (''name'', JStr ''Car'')]].
         get d ''id'' = Inr (JStr ''d1''))"
  using extended_keys_are_device_ids [OF steady_run]
  by simp

subsection \<open>The device array of a validated payload\<close>

text \<open>
  C8. A validated device-list payload whose \<open>data\<close> field is a non-empty list is
  not turned into an empty device list: \<open>.get\<close> is called on the list, and the cycle
  fails.
\<close>

theorem non_object_data_fails_refresh:
  "async_update_data list_data_server [] fetch_extended =
     (Inl (UpdateFailed AttributeError), [devices_request])"
  by (simp add: async_update_data_def async_get_devices_def SweTrackApiClient_request_def
        list_data_server_def payload_devices_def get_def py_or_def devices_request_def Let_def)

section \<open>Results about the paginator\<close>

lemmas paginator_defs =
  fetch_extended_all_pages_def loop_body_def api_post_def page_step_def page_rows_def
  page_pagination_def last_meta_def dict_get_def dict_get_default_def py_or_def get_def
  ge_int_def slice_upto_def page_request_def request_body_def fixed_server_def fixed_page_def
  row_def Let_def

lemma fetch_loop_Done:
  "loop_body srv device_id typ start_iso stop_iso pagesize max_rows hist all_rows page raw_pages
     = Done r h
   \<Longrightarrow> fetch_loop srv device_id typ start_iso stop_iso pagesize max_rows hist all_rows page raw_pages
     = Some (r, h)"
  by (subst fetch_loop.simps) simp

lemma fetch_loop_Again:
  "loop_body srv device_id typ start_iso stop_iso pagesize max_rows hist all_rows page raw_pages
     = Again h all_rows' page' raw_pages'
   \<Longrightarrow> fetch_loop srv device_id typ start_iso stop_iso pagesize max_rows hist all_rows page raw_pages
     = fetch_loop srv device_id typ start_iso stop_iso pagesize max_rows h all_rows' page' raw_pages'"
  by (subst fetch_loop.simps) simp

lemma fetch_from_state:
  "state_after n srv device_id typ start_iso stop_iso pagesize max_rows hist
     = Some (h, all_rows, page, raw_pages)
   \<Longrightarrow> fetch_extended_all_pages srv hist device_id typ start_iso stop_iso pagesize max_rows
     = fetch_loop srv device_id typ start_iso stop_iso pagesize max_rows h all_rows page raw_pages"
proof (induction n arbitrary: h all_rows page raw_pages)
  case 0
  then show ?case by (simp add: fetch_extended_all_pages_def)
next
  case (Suc n)
  from Suc.prems obtain h0 a0 p0 r0 where
    prev: "state_after n srv device_id typ start_iso stop_iso pagesize max_rows hist
             = Some (h0, a0, p0, r0)"
    and body: "loop_body srv device_id typ start_iso stop_iso pagesize max_rows h0 a0 p0 r0
             = Again h all_rows page raw_pages"
    by (auto split: option.splits iteration.splits)
  from Suc.IH [OF prev] fetch_loop_Again [OF body] show ?case by simp
qed





subsection \<open>The fetch always ends\<close>




subsection \<open>Stopping at the row bound\<close>






subsection \<open>Stopping at an empty page\<close>

text \<open>
  An empty page below the row bound ends the fetch with the rows accumulated so far,
  provided the pagination object could be looked up.
\<close>

lemma empty_page_stops:
  assumes "state_after n srv device_id typ start_iso stop_iso pagesize max_rows hist
             = Some (h, all_rows, page, raw_pages)"
    and "api_post srv h ''/device/info/extended''
             (request_body device_id typ start_iso stop_iso pagesize page) = (Inr (JObj kvs), h')"
    and "truthy (dict_get kvs ''success'')"
    and "page_rows typ kvs = []"
    and "int (length all_rows) < max_rows"
    and "page_pagination kvs = Inr (JObj pg)"
  shows "fetch_extended_all_pages srv hist device_id typ start_iso stop_iso pagesize max_rows
           = Some (Inr (Pair all_rows (last_meta kvs)), h')"
proof -
  have "page_step typ max_rows all_rows page raw_pages (JObj kvs)
          = Return (Pair all_rows (last_meta kvs))"
    using assms(3-6) by (simp add: page_step_def get_def Let_def)
  with assms(2) have
    "loop_body srv device_id typ start_iso stop_iso pagesize max_rows h all_rows page raw_pages
       = Done (Inr (Pair all_rows (last_meta kvs))) h'"
    by (simp add: loop_body_def)
  from fetch_from_state [OF assms(1)] fetch_loop_Done [OF this] show ?thesis by simp
qed

text \<open>
  C4. A page whose \<open>data\<close> is \<open>null\<close> yields no rows and the row bound is not
  reached, yet the fetch does not stop successfully: the pagination lookup raises
  \<open>AttributeError\<close>.
\<close>

theorem null_data_page_raises:
  "page_rows ''position'' [(''success'', JBool True), (''data'', JNull)] = []
   \<and> fetch_extended_all_pages null_data_server [] (JStr ''d1'') ''position'' None None 200 500
       = Some (Inl AttributeError, [page_request (JStr ''d1'') ''position'' 200 1])"
  by (simp add: paginator_defs fetch_loop.simps null_data_server_def null_data_page_def)

subsection \<open>The shape of the result\<close>

text \<open>
  C5. The stop at the reported page count returns a 3-tuple with the raw pages; the
  stops at an empty page and at the row bound return a 2-tuple.
\<close>

theorem result_shape_differs:
  "fetch_extended_all_pages
      (fixed_server [row 1] (JObj [(''page'', JInt 1), (''total_pages'', JInt 1)])) []
      (JStr ''d1'') ''position'' None None 200 500
     = Some (Inr (Triple [row 1] (JObj [])
                   [fixed_page [row 1] (JObj [(''page'', JInt 1), (''total_pages'', JInt 1)])]),
             [page_request (JStr ''d1'') ''position'' 200 1])
   \<and> fetch_extended_all_pages (fixed_server [] JNull) [] (JStr ''d1'') ''position'' None None 200 500
     = Some (Inr (Pair [] (JObj [])), [page_request (JStr ''d1'') ''position'' 200 1])
   \<and> fetch_extended_all_pages (fixed_server [row 1] JNull) [] (JStr ''d1'') ''position'' None None 200 1
     = Some (Inr (Pair [row 1] (JObj [])), [page_request (JStr ''d1'') ''position'' 200 1])"
  by (simp add: paginator_defs fetch_loop.simps)

subsection \<open>A lone value where a list is expected\<close>

lemma data_or_empty:
  "py_or (case map_of payload ''data'' of None \<Rightarrow> JNull | Some v \<Rightarrow> v) (JObj [])
     = py_or (dict_get_default payload ''data'' (JObj [])) (JObj [])"
  by (simp add: py_or_def dict_get_default_def split: option.splits)

text \<open>
  C6, as the code has it. In the paginator of the standalone tool the value the per-type
  rule extracts (for a type other than position and voltage: the first truthy one of the
  field named by the type and the field named by the type with an \<open>s\<close> added), when it is
  not \<open>null\<close> and not a list, becomes a one-element list; \<open>_extract_extended_rows\<close> of the
  integration returns the empty list for the same payload.
\<close>

theorem lone_value_wrapped_by_paginator_only:
  assumes "py_or (dict_get_default payload ''data'' (JObj [])) (JObj []) = JObj d"
    and "per_type_value typ d = v"
    and "v \<noteq> JNull"
    and "\<not> is_list v"
  shows "page_rows typ payload = [v] \<and> extract_extended_rows (JObj payload) typ = Inr []"
proof -
  have "page_rows typ payload = [v]"
    using assms(3,4)
    by (cases v) (simp_all add: page_rows_def assms(1) assms(2) [unfolded per_type_value_def] Let_def)
  moreover have "extract_extended_rows (JObj payload) typ = Inr []"
    using assms(4)
    by (cases v)
       (simp_all add: extract_extended_rows_def get_def data_or_empty assms(1)
          assms(2) [unfolded per_type_value_def] Let_def)
  ultimately show ?thesis by simp
qed

theorem lone_value_wrapped_by_paginator_only_witness:
  "page_rows ''humidity'' [(''success'', JBool True), (''data'', JObj [(''humiditys'', lone_humidity)])]
     = [lone_humidity]
   \<and> extract_extended_rows
        (JObj [(''success'', JBool True), (''data'', JObj [(''humiditys'', lone_humidity)])])
        ''humidity'' = Inr []
   \<and> page_rows ''position'' [(''success'', JBool True), (''data'', JObj [(''positions'', lone_position)])]
     = [lone_position]"
  using lone_value_wrapped_by_paginator_only
          [of "[(''success'', JBool True), (''data'', JObj [(''humiditys'', lone_humidity)])]"
              "[(''humiditys'', lone_humidity)]" "''humidity''" lone_humidity]
        lone_value_wrapped_by_paginator_only
          [of "[(''success'', JBool True), (''data'', JObj [(''positions'', lone_position)])]"
              "[(''positions'', lone_position)]" "''position''" lone_position]
  by (simp add: dict_get_default_def dict_get_def py_or_def per_type_value_def lone_humidity_def
        lone_position_def)

text \<open>
  C6 as worded fails on the integration's extraction: the lone object is dropped.
\<close>

theorem lone_value_dropped_counterexample:
  "extract_extended_rows
     (JObj [(''success'', JBool True), (''data'', JObj [(''positions'', lone_position)])])
     ''position'' = Inr []
   \<and> extract_extended_rows
     (JObj [(''success'', JBool True), (''data'', JObj [(''positions'', lone_position)])])
     ''position'' \<noteq> Inr [lone_position]"
  by (simp add: extract_extended_rows_def get_def py_or_def dict_get_default_def lone_position_def)

subsection \<open>The page number compared with the page count\<close>

text \<open>
  C10. On a page with rows, below the row bound and with an integer \<open>total_pages\<close>,
  the loop stops exactly when the pagination object's \<open>page\<close> field, or the local page
  counter if there is no such field, is at least \<open>total_pages\<close>. So a remote end
  reporting page 5 of 3 stops the fetch after one request where the local counter would
  have asked for three pages, and one reporting page 1 of 2 on every page keeps it
  running to the row bound where the local counter would have stopped after two.
\<close>

theorem total_pages_uses_reported_page:
  "(truthy (dict_get kvs ''success'') \<and> page_pagination kvs = Inr (JObj pg)
      \<and> map_of pg ''total_pages'' = Some total_pages \<and> is_int total_pages
      \<and> page_rows typ kvs \<noteq> [] \<and> int (length (all_rows @ page_rows typ kvs)) < max_rows
    \<longrightarrow> page_step typ max_rows all_rows page raw_pages (JObj kvs) =
         (case ge_int (case map_of pg ''page'' of Some reported \<Rightarrow> reported | None \<Rightarrow> JInt page)
                 total_pages of
            Inl e \<Rightarrow> Raise e
          | Inr stop \<Rightarrow>
              if stop
              then Return (Triple (all_rows @ page_rows typ kvs) (last_meta kvs)
                             (raw_pages @ [JObj kvs]))
              else NextPage (all_rows @ page_rows typ kvs) (page + 1) (raw_pages @ [JObj kvs])))
   \<and> fetch_extended_all_pages
        (fixed_server [row 1] (JObj [(''page'', JInt 5), (''total_pages'', JInt 3)])) []
        (JStr ''d1'') ''position'' None None 200 500
       = Some (Inr (Triple [row 1] (JObj [])
                     [fixed_page [row 1] (JObj [(''page'', JInt 5), (''total_pages'', JInt 3)])]),
               [page_request (JStr ''d1'') ''position'' 200 1])
   \<and> fetch_extended_all_pages
        (fixed_server [row 1] (JObj [(''total_pages'', JInt 3)])) []
        (JStr ''d1'') ''position'' None None 200 500
       = Some (Inr (Triple [row 1, row 1, row 1] (JObj [])
                     [fixed_page [row 1] (JObj [(''total_pages'', JInt 3)]),
                      fixed_page [row 1] (JObj [(''total_pages'', JInt 3)]),
                      fixed_page [row 1] (JObj [(''total_pages'', JInt 3)])]),
               [page_request (JStr ''d1'') ''position'' 200 1,
                page_request (JStr ''d1'') ''position'' 200 2,
                page_request (JStr ''d1'') ''position'' 200 3])
   \<and> fetch_extended_all_pages
        (fixed_server [row 1] (JObj [(''page'', JInt 1), (''total_pages'', JInt 2)])) []
        (JStr ''d1'') ''position'' None None 200 4
       = Some (Inr (Pair [row 1, row 1, row 1, row 1] (JObj [])),
               [page_request (JStr ''d1'') ''position'' 200 1,
                page_request (JStr ''d1'') ''position'' 200 2,
                page_request (JStr ''d1'') ''position'' 200 3,
                page_request (JStr ''d1'') ''position'' 200 4])
   \<and> fetch_extended_all_pages
        (fixed_server [row 1] (JObj [(''total_pages'', JInt 2)])) []
        (JStr ''d1'') ''position'' None None 200 4
       = Some (Inr (Triple [row 1, row 1] (JObj [])
                     [fixed_page [row 1] (JObj [(''total_pages'', JInt 2)]),
                      fixed_page [row 1] (JObj [(''total_pages'', JInt 2)])]),
               [page_request (JStr ''d1'') ''position'' 200 1,
                page_request (JStr ''d1'') ''position'' 200 2])"
proof (intro conjI impI)
  assume a: "truthy (dict_get kvs ''success'') \<and> page_pagination kvs = Inr (JObj pg)
      \<and> map_of pg ''total_pages'' = Some total_pages \<and> is_int total_pages
      \<and> page_rows typ kvs \<noteq> [] \<and> int (length (all_rows @ page_rows typ kvs)) < max_rows"
  then show "page_step typ max_rows all_rows page raw_pages (JObj kvs) =
         (case ge_int (case map_of pg ''page'' of Some reported \<Rightarrow> reported | None \<Rightarrow> JInt page)
                 total_pages of
            Inl e \<Rightarrow> Raise e
          | Inr stop \<Rightarrow>
              if stop
              then Return (Triple (all_rows @ page_rows typ kvs) (last_meta kvs)
                             (raw_pages @ [JObj kvs]))
              else NextPage (all_rows @ page_rows typ kvs) (page + 1) (raw_pages @ [JObj kvs]))"
    by (simp add: page_step_def get_def Let_def split: option.splits sum.splits)
qed (simp_all add: paginator_defs fetch_loop.simps)

theorem total_pages_uses_reported_page_witness:
  "page_step ''position'' 500 [] 1 []
      (fixed_page [row 1] (JObj [(''page'', JInt 5), (''total_pages'', JInt 3)]))
     = Return (Triple [row 1] (JObj [])
                [fixed_page [row 1] (JObj [(''page'', JInt 5), (''total_pages'', JInt 3)])])"
  using total_pages_uses_reported_page
          [of "[(''success'', JBool True), (''data'', JObj [(''positions'', JArr [row 1])]),
                (''pagination'', JObj [(''page'', JInt 5), (''total_pages'', JInt 3)])]"
              "[(''page'', JInt 5), (''total_pages'', JInt 3)]" "JInt 3" "''position''" "[]" 500 1 "[]"]
  by (simp add: paginator_defs)

section \<open>Results about the loops of the standalone tool\<close>













lemma unpack_failure_recorded:
  "main_devices (fixed_server [] JNull) quiet_console None None 200 500 [''position'']
      [] [] [car] []
     = Some (Inr [\<lparr>out_id = JStr ''d1'', out_name = JStr ''Car'', out_model = JStr ''-'',
                   out_status = JStr ''-'',
                   out_extended = [(JStr ''position'', ErrorEntry ValueError)]\<rparr>],
             [page_request (JStr ''d1'') ''position'' 200 1],
             [DeviceLine (JStr ''Car'') (JStr ''-'') (JStr ''d1'') (JStr ''-''),
              ErrorLine ''position'' ValueError])"
  by (simp add: paginator_defs fetch_loop.simps device_header_def car_def
        try_fetch_def except_handler_def print_line_def quiet_console_def)




end
